theory Spec2Isabelle
  imports Main
begin

section \<open>The configuration module \<^verbatim>\<open>next.config.js\<close>\<close>

text \<open>
  The module requires \<^verbatim>\<open>webpack\<close>, builds one object literal, \<^verbatim>\<open>nextConfig\<close>, and
  exports it. An object literal is written down as a tree that keeps the keys and their
  order; evaluating it (\<open>allocate\<close>) creates its objects in a store, where they can be
  reached and written to by reference, as the webpack configuration handed to the
  \<^verbatim>\<open>webpack\<close> hook is (\<^verbatim>\<open>config.plugins.push\<close>). The array that \<^verbatim>\<open>headers()\<close> returns is
  new at every call and is handed over by value.
\<close>

subsection \<open>Object literals\<close>

datatype fn = Fn_headers | Fn_webpack

datatype literal =
    LBool bool
  | LString string
  | LArray "literal list"
  | LObject "(string \<times> literal) list"
  | LFunction fn

text \<open>Property access \<^verbatim>\<open>o.k\<close> on a literal; \<open>None\<close> stands for \<^verbatim>\<open>undefined\<close>.\<close>

fun get :: "literal \<Rightarrow> string \<Rightarrow> literal option" where
  "get (LObject fs) k = map_of fs k"
| "get _ k = None"

text \<open>A chain of property accesses \<^verbatim>\<open>o.k1.k2\<close>, \<open>None\<close> as soon as a property is missing.\<close>

fun get_path :: "literal \<Rightarrow> string list \<Rightarrow> literal option" where
  "get_path v [] = Some v"
| "get_path v (k # ks) = (case get v k of None \<Rightarrow> None | Some w \<Rightarrow> get_path w ks)"

text \<open>\<^verbatim>\<open>Object.keys(o)\<close>: the own keys of an object literal, in the order written.\<close>

fun keys :: "literal \<Rightarrow> string list" where
  "keys (LObject fs) = map fst fs"
| "keys _ = []"

text \<open>\<^verbatim>\<open>JSON.stringify\<close>, on the booleans the module passes to it.\<close>

definition JSON_stringify :: "bool \<Rightarrow> string" where
  "JSON_stringify b = (if b then ''true'' else ''false'')"

text \<open>
  The code fragments given to \<^verbatim>\<open>DefinePlugin\<close> are JavaScript source text; the two
  boolean literals of the language are read back by \<open>boolean_literal\<close>.
\<close>

definition boolean_literal :: "string \<Rightarrow> bool option" where
  "boolean_literal src =
     (if src = ''true'' then Some True else if src = ''false'' then Some False else None)"

subsection \<open>The store of mutable objects\<close>

type_synonym addr = nat

datatype jsval = Undefined | Null | Boolean bool | Str string | Ref addr

datatype obj =
    Obj "(string \<times> jsval) list"
  | Arr "jsval list"
  | DefinePlugin literal
  | Callable fn

type_synonym store = "obj list"

datatype error = TypeError | Cannot_find_module string

definition lookup :: "store \<Rightarrow> addr \<Rightarrow> obj option" where
  "lookup s a = (if a < length s then Some (s ! a) else None)"

text \<open>\<^verbatim>\<open>new C(...)\<close>: the new object takes the next free address.\<close>

definition alloc :: "obj \<Rightarrow> store \<Rightarrow> jsval \<times> store" where
  "alloc ob s = (Ref (length s), s @ [ob])"

text \<open>
  \<^verbatim>\<open>v.k\<close> on a run-time value: reading a property of \<^verbatim>\<open>undefined\<close> or \<^verbatim>\<open>null\<close>
  throws a \<^verbatim>\<open>TypeError\<close>; a property that is not there reads as \<^verbatim>\<open>undefined\<close>.
\<close>

fun get_prop :: "store \<Rightarrow> jsval \<Rightarrow> string \<Rightarrow> error + jsval" where
  "get_prop s Undefined k = Inl TypeError"
| "get_prop s Null k = Inl TypeError"
| "get_prop s (Ref a) k =
     (case lookup s a of
        Some (Obj fs) \<Rightarrow> Inr (case map_of fs k of Some v \<Rightarrow> v | None \<Rightarrow> Undefined)
      | _ \<Rightarrow> Inr Undefined)"
| "get_prop s _ k = Inr Undefined"

text \<open>
  \<^verbatim>\<open>v.push(x)\<close>: on an array the element is appended in place. On \<^verbatim>\<open>undefined\<close> and
  \<^verbatim>\<open>null\<close> the property access throws; on any other value of this model \<^verbatim>\<open>v.push\<close>
  is not a function and the call throws.
\<close>

fun push :: "store \<Rightarrow> jsval \<Rightarrow> jsval \<Rightarrow> error + store" where
  "push s (Ref a) x =
     (case lookup s a of
        Some (Arr xs) \<Rightarrow> Inr (s[a := Arr (xs @ [x])])
      | _ \<Rightarrow> Inl TypeError)"
| "push s _ x = Inl TypeError"

subsection \<open>The exported object\<close>

datatype 'a promise = Fulfilled 'a | Rejected error

definition nextConfig :: literal where
  "nextConfig = LObject
     [(''eslint'', LObject [(''ignoreDuringBuilds'', LBool True)]),
      (''images'', LObject
         [(''unoptimized'', LBool True),
          (''domains'', LArray [LString ''n8n2.ibhost.online''])]),
      (''headers'', LFunction Fn_headers),
      (''experimental'', LObject
         [(''serverComponentsExternalPackages'', LArray [LString ''@n8n/chat''])]),
      (''webpack'', LFunction Fn_webpack)]"

text \<open>\<^verbatim>\<open>module.exports = nextConfig\<close>\<close>

definition module_exports :: literal where
  "module_exports = nextConfig"

text \<open>
  \<^verbatim>\<open>async headers()\<close>: an async function returns a promise; the body has no
  \<^verbatim>\<open>await\<close> and no statement that can throw, and it touches no object of the store.
\<close>

definition headers :: "store \<Rightarrow> literal promise \<times> store" where
  "headers s =
     (Fulfilled (LArray
        [LObject
           [(''source'', LString ''/(.*)''),
            (''headers'', LArray
               [LObject
                  [(''key'', LString ''Cross-Origin-Embedder-Policy''),
                   (''value'', LString ''unsafe-none'')],
                LObject
                  [(''key'', LString ''Cross-Origin-Opener-Policy''),
                   (''value'', LString ''same-origin-allow-popups'')]])]]),
      s)"


text \<open>
  \<^verbatim>\<open>webpack: (config, { isServer }) => { config.plugins.push(new webpack.DefinePlugin({...})); return config; }\<close>
  Destructuring the second argument throws when it is \<^verbatim>\<open>undefined\<close> or \<^verbatim>\<open>null\<close>;
  \<^verbatim>\<open>isServer\<close> is not used afterwards.
\<close>

definition webpack :: "jsval \<Rightarrow> jsval \<Rightarrow> store \<Rightarrow> error + (jsval \<times> store)" where
  "webpack config ctx s =
     (if ctx = Undefined \<or> ctx = Null then Inl TypeError
      else case get_prop s config ''plugins'' of
          Inl e \<Rightarrow> Inl e
        | Inr plugins \<Rightarrow>
            (case alloc (DefinePlugin (LObject
                     [(''__VUE_OPTIONS_API__'', LString (JSON_stringify True)),
                      (''__VUE_PROD_DEVTOOLS__'', LString (JSON_stringify False)),
                      (''__VUE_PROD_HYDRATION_MISMATCH_DETAILS__'',
                         LString (JSON_stringify False))])) s of
               (plugin, s1) \<Rightarrow>
                 (case push s1 plugins plugin of
                    Inl e \<Rightarrow> Inl e
                  | Inr s2 \<Rightarrow> Inr (config, s2))))"

subsection \<open>Reading a webpack configuration\<close>

text \<open>The elements of \<^verbatim>\<open>config.plugins\<close>, when that property is an array of the store.\<close>

definition plugin_list :: "store \<Rightarrow> jsval \<Rightarrow> jsval list option" where
  "plugin_list s config =
     (case get_prop s config ''plugins'' of
        Inr (Ref p) \<Rightarrow> (case lookup s p of Some (Arr xs) \<Rightarrow> Some xs | _ \<Rightarrow> None)
      | _ \<Rightarrow> None)"

text \<open>
  The constants a \<^verbatim>\<open>DefinePlugin\<close> instance defines: each name with the boolean its code
  fragment denotes (\<open>None\<close> when the fragment is not a boolean literal).
\<close>

fun defined_constants :: "obj \<Rightarrow> (string \<times> bool option) list" where
  "defined_constants (DefinePlugin (LObject fs)) =
     map (\<lambda>(k, v). (k, case v of LString src \<Rightarrow> boolean_literal src | _ \<Rightarrow> None)) fs"
| "defined_constants _ = []"

text \<open>The constants defined by the last element of \<^verbatim>\<open>config.plugins\<close>.\<close>

definition last_plugin_constants :: "store \<Rightarrow> jsval \<Rightarrow> (string \<times> bool option) list option" where
  "last_plugin_constants s config =
     (case plugin_list s config of
        None \<Rightarrow> None
      | Some xs \<Rightarrow>
          (case rev xs of
             Ref p # _ \<Rightarrow> map_option defined_constants (lookup s p)
           | _ \<Rightarrow> None))"

subsection \<open>The plugin the hook adds\<close>

text \<open>
  The \<^verbatim>\<open>DefinePlugin\<close> instance that \<open>webpack\<close> creates, with \<^verbatim>\<open>JSON.stringify\<close>
  evaluated, and the constants it defines.
\<close>

abbreviation vue_flags_plugin :: obj where
  "vue_flags_plugin \<equiv> DefinePlugin (LObject
     [(''__VUE_OPTIONS_API__'', LString ''true''),
      (''__VUE_PROD_DEVTOOLS__'', LString ''false''),
      (''__VUE_PROD_HYDRATION_MISMATCH_DETAILS__'', LString ''false'')])"

abbreviation vue_flags :: "(string \<times> bool option) list" where
  "vue_flags \<equiv>
     [(''__VUE_OPTIONS_API__'', Some True),
      (''__VUE_PROD_DEVTOOLS__'', Some False),
      (''__VUE_PROD_HYDRATION_MISMATCH_DETAILS__'', Some False)]"

text \<open>
  The store in which a call of \<open>webpack\<close> ends when \<^verbatim>\<open>config.plugins\<close> is the array at
  address \<open>p\<close> with elements \<open>xs\<close> (\<open>webpack_Inr\<close>, \<open>webpack_success\<close>): the new plugin
  is the one new object, and the array has a reference to it as its new last element.
\<close>

definition pushed :: "store \<Rightarrow> addr \<Rightarrow> jsval list \<Rightarrow> store" where
  "pushed s p xs = (s @ [vue_flags_plugin])[p := Arr (xs @ [Ref (length s)])]"

text \<open>
  A store to run the hook in: the configuration
  \<^verbatim>\<open>{ mode: "production", plugins: [existing] }\<close> at address 0, its plugins array at 1,
  the contexts \<^verbatim>\<open>{ isServer: true }\<close> and \<^verbatim>\<open>{ isServer: false }\<close> at 2 and 3, and the
  plugin that is already there at 4.
\<close>

definition sample_store :: store where
  "sample_store =
     [Obj [(''mode'', Str ''production''), (''plugins'', Ref 1)],
      Arr [Ref 4],
      Obj [(''isServer'', Boolean True)],
      Obj [(''isServer'', Boolean False)],
      Obj [(''name'', Str ''existing'')]]"

subsection \<open>Evaluating the module\<close>


text \<open>
  Evaluating a literal: a boolean or a string is a value; an array, an object or a
  function is a new object of the store, created once its elements, or the values of its
  properties, have been evaluated from left to right.
\<close>

fun allocate :: "literal \<Rightarrow> store \<Rightarrow> jsval \<times> store"
  and allocate_elements :: "literal list \<Rightarrow> store \<Rightarrow> jsval list \<times> store"
  and allocate_properties :: "(string \<times> literal) list \<Rightarrow> store \<Rightarrow> (string \<times> jsval) list \<times> store"
where
  "allocate (LBool b) s = (Boolean b, s)"
| "allocate (LString x) s = (Str x, s)"
| "allocate (LArray vs) s = (case allocate_elements vs s of (xs, s') \<Rightarrow> alloc (Arr xs) s')"
| "allocate (LObject fs) s = (case allocate_properties fs s of (gs, s') \<Rightarrow> alloc (Obj gs) s')"
| "allocate (LFunction f) s = alloc (Callable f) s"
| "allocate_elements [] s = ([], s)"
| "allocate_elements (v # vs) s =
     (case allocate v s of (x, s') \<Rightarrow>
        (case allocate_elements vs s' of (xs, s'') \<Rightarrow> (x # xs, s'')))"
| "allocate_properties [] s = ([], s)"
| "allocate_properties ((k, v) # fs) s =
     (case allocate v s of (x, s') \<Rightarrow>
        (case allocate_properties fs s' of (gs, s'') \<Rightarrow> ((k, x) # gs, s'')))"


subsection \<open>Calling the exported functions\<close>






subsection \<open>Reading a configuration back from the store\<close>


text \<open>The addresses that \<open>reify\<close> looks up on its way: the objects the value is made of.\<close>

fun footprint :: "nat \<Rightarrow> store \<Rightarrow> jsval \<Rightarrow> addr list" where
  "footprint 0 s v = []"
| "footprint (Suc n) s (Ref a) =
     a # (case lookup s a of
            Some (Arr xs) \<Rightarrow> concat (map (footprint n s) xs)
          | Some (Obj fs) \<Rightarrow> concat (map (\<lambda>(k, x). footprint n s x) fs)
          | _ \<Rightarrow> [])"
| "footprint (Suc n) s (Boolean b) = []"
| "footprint (Suc n) s (Str x) = []"
| "footprint (Suc n) s Undefined = []"
| "footprint (Suc n) s Null = []"



subsection \<open>What a \<^verbatim>\<open>DefinePlugin\<close> does\<close>

text \<open>The definitions an instance was created with: each name with its code fragment.\<close>

fun definitions :: "obj \<Rightarrow> (string \<times> string) list" where
  "definitions (DefinePlugin (LObject fs)) =
     concat (map (\<lambda>(k, v). case v of LString src \<Rightarrow> [(k, src)] | _ \<Rightarrow> []) fs)"
| "definitions _ = []"

text \<open>
  Modelled from the spec: the class \<^verbatim>\<open>webpack.DefinePlugin\<close>, which the module imports
  and whose code is not under \<^verbatim>\<open>src/\<close>. The spec: "Compile-time constant injection:
  replacing named references with fixed literal values during the build, so the produced
  artifact contains no runtime-configurable form of that value." A module to be bundled
  is taken as its list of tokens; a token that is a defined name is replaced by the code
  fragment defined for it, and every other token is kept.
\<close>

definition inline :: "obj \<Rightarrow> string list \<Rightarrow> string list" where
  "inline plugin tokens =
     map (\<lambda>t. case map_of (definitions plugin) t of Some src \<Rightarrow> src | None \<Rightarrow> t) tokens"

section \<open>The serving layer\<close>

subsection \<open>Path patterns\<close>

text \<open>
  Modelled from the spec: matching a request path against a rule's pattern is done by the
  serving framework, whose code is not under \<^verbatim>\<open>src/\<close>; the spec says only that a rule is
  "applied to every response whose path matches the pattern". The pattern string of the
  source is read in the pattern language it is written in: a character outside parentheses
  stands for itself, and a parenthesised group is a regular expression, in which \<^verbatim>\<open>.\<close> is
  any character but a line terminator and a postfix \<^verbatim>\<open>*\<close> repeats what precedes it. A
  path matches when the whole of it matches. Pattern syntax beyond that (named parameters,
  modifiers, alternatives, character classes, escapes) is refused by \<open>parse_pattern\<close>.
\<close>

datatype rx = Zero | One | Lit char | Dot | Alt rx rx | Cat rx rx | Star rx

text \<open>
  The line terminators among the 8-bit characters of this model: line feed and carriage
  return.
\<close>

definition line_terminator :: "char \<Rightarrow> bool" where
  "line_terminator c = (c = CHR 0x0A \<or> c = CHR 0x0D)"

fun nullable :: "rx \<Rightarrow> bool" where
  "nullable Zero = False"
| "nullable One = True"
| "nullable (Lit c) = False"
| "nullable Dot = False"
| "nullable (Alt r s) = (nullable r \<or> nullable s)"
| "nullable (Cat r s) = (nullable r \<and> nullable s)"
| "nullable (Star r) = True"

text \<open>What is left of \<open>r\<close> once the character \<open>c\<close> has been read.\<close>

fun deriv :: "char \<Rightarrow> rx \<Rightarrow> rx" where
  "deriv c Zero = Zero"
| "deriv c One = Zero"
| "deriv c (Lit d) = (if c = d then One else Zero)"
| "deriv c Dot = (if line_terminator c then Zero else One)"
| "deriv c (Alt r s) = Alt (deriv c r) (deriv c s)"
| "deriv c (Cat r s) =
     (if nullable r then Alt (Cat (deriv c r) s) (deriv c s) else Cat (deriv c r) s)"
| "deriv c (Star r) = Cat (deriv c r) (Star r)"

text \<open>
  Modelled from the spec: "path matches the pattern", for a pattern already parsed; the
  framework's matcher is not under \<^verbatim>\<open>src/\<close>. The whole path has to be read, and what is
  left of the pattern then has to accept the empty string.
\<close>

fun rx_match :: "rx \<Rightarrow> string \<Rightarrow> bool" where
  "rx_match r [] = nullable r"
| "rx_match r (c # cs) = rx_match (deriv c r) cs"

text \<open>
  The set of strings a regular expression denotes, in the usual sense; the matcher is
  checked against it below (\<open>rx_match_lang\<close>).
\<close>

inductive_set star :: "string set \<Rightarrow> string set" for A :: "string set" where
  star_empty: "[] \<in> star A"
| star_step: "u \<in> A \<Longrightarrow> v \<in> star A \<Longrightarrow> u @ v \<in> star A"

fun lang :: "rx \<Rightarrow> string set" where
  "lang Zero = {}"
| "lang One = {[]}"
| "lang (Lit c) = {[c]}"
| "lang Dot = {[c] | c. \<not> line_terminator c}"
| "lang (Alt r s) = lang r \<union> lang s"
| "lang (Cat r s) = {u @ v | u v. u \<in> lang r \<and> v \<in> lang s}"
| "lang (Star r) = star (lang r)"

fun seq :: "rx list \<Rightarrow> rx" where
  "seq [] = One"
| "seq (r # rs) = Cat r (seq rs)"

definition path_special :: "char list" where
  "path_special = [CHR '')'', CHR ''*'', CHR ''+'', CHR ''?'', CHR '':'', CHR ''{'', CHR ''}'',
     CHR 0x5C]"

definition group_special :: "char list" where
  "group_special = [CHR ''('', CHR ''+'', CHR ''?'', CHR ''|'', CHR ''['', CHR '']'', CHR ''{'',
     CHR ''}'', CHR ''^'', CHR ''$'', CHR 0x5C]"

text \<open>
  Modelled from the spec: reading the pattern of a rule, which the framework does and
  whose code is not under \<^verbatim>\<open>src/\<close>.
  \<open>parse_pattern out grp\<close> reads a pattern from left to right: \<open>out\<close> holds what has been
  read outside parentheses, latest first, and \<open>grp\<close> what has been read of the group that
  is open, if one is. \<open>None\<close> is a pattern outside the fragment described above.
\<close>

fun parse_pattern :: "rx list \<Rightarrow> rx list option \<Rightarrow> string \<Rightarrow> rx option" where
  "parse_pattern out None [] = Some (seq (rev out))"
| "parse_pattern out (Some grp) [] = None"
| "parse_pattern out None (c # cs) =
     (if c = CHR ''('' then parse_pattern out (Some []) cs
      else if c \<in> set path_special then None
      else parse_pattern (Lit c # out) None cs)"
| "parse_pattern out (Some grp) (c # cs) =
     (if c = CHR '')'' then
        (if grp = [] then None else parse_pattern (seq (rev grp) # out) None cs)
      else if c = CHR ''.'' then parse_pattern out (Some (Dot # grp)) cs
      else if c = CHR ''*'' then
        (case grp of [] \<Rightarrow> None | r # rs \<Rightarrow> parse_pattern out (Some (Star r # rs)) cs)
      else if c \<in> set group_special then None
      else parse_pattern out (Some (Lit c # grp)) cs)"

text \<open>
  A request path is the path of an HTTP request target in origin form: it starts with a
  slash, and it holds no carriage return or line feed, the characters that end the
  request line.
\<close>

fun request_path :: "string \<Rightarrow> bool" where
  "request_path [] = False"
| "request_path (c # cs) = (c = CHR ''/'' \<and> list_all (\<lambda>d. \<not> line_terminator d) cs)"

subsection \<open>Header rules\<close>

text \<open>
  Modelled from the spec: loading the rules that \<^verbatim>\<open>headers()\<close> returns and attaching them
  to a response is done by the serving framework, whose code is not under \<^verbatim>\<open>src/\<close>. The
  spec: \<^verbatim>\<open>headerRules\<close> is an "ordered sequence of (path-pattern, header-name,
  header-value) triples", "applied to every response whose path matches the pattern"; a
  configuration that cannot be read is a configuration-load failure. Each rule is an
  object with a \<^verbatim>\<open>source\<close> pattern and a \<^verbatim>\<open>headers\<close> array of \<^verbatim>\<open>key\<close>/\<^verbatim>\<open>value\<close> objects.
  \<open>None\<close> is the configuration-load failure.
\<close>

record header_rule =
  source :: string
  pattern :: rx
  rule_headers :: "(string \<times> string) list"

definition load_header :: "literal \<Rightarrow> (string \<times> string) option" where
  "load_header h =
     (case (get h ''key'', get h ''value'') of
        (Some (LString k), Some (LString v)) \<Rightarrow> Some (k, v)
      | _ \<Rightarrow> None)"

definition load_rule :: "literal \<Rightarrow> header_rule option" where
  "load_rule r =
     (case (get r ''source'', get r ''headers'') of
        (Some (LString src), Some (LArray hs)) \<Rightarrow>
          (case (parse_pattern [] None src, those (map load_header hs)) of
             (Some rx, Some kvs) \<Rightarrow> Some \<lparr>source = src, pattern = rx, rule_headers = kvs\<rparr>
           | _ \<Rightarrow> None)
      | _ \<Rightarrow> None)"

definition load_rules :: "literal promise \<Rightarrow> header_rule list option" where
  "load_rules p =
     (case p of
        Fulfilled (LArray rs) \<Rightarrow> those (map load_rule rs)
      | _ \<Rightarrow> None)"

text \<open>
  Modelled from the spec: the rules are "applied to every response whose path matches the
  pattern"; the framework's code that does so is not under \<^verbatim>\<open>src/\<close>. The headers this
  layer puts on the response for a path are those of every matching rule, in order.
\<close>

definition response_headers :: "header_rule list \<Rightarrow> string \<Rightarrow> (string \<times> string) list" where
  "response_headers rules path =
     concat (map rule_headers (filter (\<lambda>r. rx_match (pattern r) path) rules))"

text \<open>The rules are those of the module's \<^verbatim>\<open>headers()\<close>, called in store \<open>s\<close>.\<close>

definition served_headers :: "store \<Rightarrow> string \<Rightarrow> (string \<times> string) list option" where
  "served_headers s path =
     map_option (\<lambda>rules. response_headers rules path) (load_rules (fst (headers s)))"

text \<open>For each loaded rule, its pattern as written and whether it matches the path.\<close>

definition rule_matches :: "store \<Rightarrow> string \<Rightarrow> (string \<times> bool) list option" where
  "rule_matches s path =
     map_option (map (\<lambda>r. (source r, rx_match (pattern r) path))) (load_rules (fst (headers s)))"

subsection \<open>Images\<close>

text \<open>
  Modelled from the spec: the framework's handling of an image request, whose code is not
  under \<^verbatim>\<open>src/\<close>. The spec: "image optimization is globally disabled, so no domain check
  gate applies at runtime - the allowlist setting is a no-op when optimization is off",
  and with optimisation off images are "served unmodified". With optimisation on, the
  allowlist is the gate: a hostname outside it is refused.
\<close>

datatype image_outcome = Served_unmodified | Served_optimized | Refused

definition image_request :: "literal \<Rightarrow> string \<Rightarrow> image_outcome" where
  "image_request cfg host =
     (if get_path cfg [''images'', ''unoptimized''] = Some (LBool True) then Served_unmodified
      else case get_path cfg [''images'', ''domains''] of
          Some (LArray ds) \<Rightarrow> if LString host \<in> set ds then Served_optimized else Refused
        | _ \<Rightarrow> Refused)"

text \<open>The object \<open>v\<close> with its property \<open>k\<close> set to \<open>w\<close> (added last when it is not there).\<close>

fun put :: "literal \<Rightarrow> string \<Rightarrow> literal \<Rightarrow> literal" where
  "put (LObject fs) k w =
     (if k \<in> set (map fst fs) then LObject (map (\<lambda>(k', w'). if k' = k then (k', w) else (k', w')) fs)
      else LObject (fs @ [(k, w)]))"
| "put v k w = v"

text \<open>A configuration with another image-source allowlist, all else as it is.\<close>

definition with_domains :: "literal \<Rightarrow> string list \<Rightarrow> literal" where
  "with_domains cfg ds =
     (case get cfg ''images'' of
        Some images \<Rightarrow> put cfg ''images'' (put images ''domains'' (LArray (map LString ds)))
      | None \<Rightarrow> cfg)"

section \<open>Facts about the store and the hook\<close>

lemma get_prop_Ref:
  "get_prop s config k = Inr (Ref p) \<Longrightarrow>
     \<exists>c fs. config = Ref c \<and> lookup s c = Some (Obj fs) \<and> map_of fs k = Some (Ref p)"
  by (cases config) (auto split: option.splits obj.splits)

lemma push_Inr:
  "push s v x = Inr s' \<Longrightarrow>
     \<exists>p xs. v = Ref p \<and> lookup s p = Some (Arr xs) \<and> s' = s[p := Arr (xs @ [x])]"
  by (cases v) (auto split: option.splits obj.splits)

lemma lookup_append:
  "lookup (s @ [ob]) a = (if a = length s then Some ob else lookup s a)"
  by (auto simp: lookup_def nth_append)

lemma lookup_Some_less: "lookup s a = Some ob \<Longrightarrow> a < length s"
  by (simp add: lookup_def split: if_splits)

lemma lookup_update:
  "lookup (s[p := ob]) a = (if a = p \<and> p < length s then Some ob else lookup s a)"
  by (auto simp: lookup_def)

lemma defined_constants_vue_flags: "defined_constants vue_flags_plugin = vue_flags"
  by (simp add: boolean_literal_def)

lemma plugin_list_Some:
  assumes "plugin_list s config = Some xs"
  shows "\<exists>c fs p. config = Ref c \<and> lookup s c = Some (Obj fs)
          \<and> map_of fs ''plugins'' = Some (Ref p) \<and> lookup s p = Some (Arr xs)"
proof -
  from assms obtain p where g: "get_prop s config ''plugins'' = Inr (Ref p)"
    and l: "lookup s p = Some (Arr xs)"
    by (auto simp: plugin_list_def split: sum.splits jsval.splits option.splits obj.splits)
  from get_prop_Ref [OF g] l show ?thesis by blast
qed

lemma plugin_list_intro:
  "lookup s c = Some (Obj fs) \<Longrightarrow> map_of fs ''plugins'' = Some (Ref p) \<Longrightarrow>
   lookup s p = Some (Arr xs) \<Longrightarrow> plugin_list s (Ref c) = Some xs"
  by (simp add: plugin_list_def)

lemma webpack_Inr:
  assumes "webpack config ctx s = Inr (r, s')"
  shows "\<exists>xs p. plugin_list s config = Some xs \<and> get_prop s config ''plugins'' = Inr (Ref p)
       \<and> r = config \<and> ctx \<noteq> Undefined \<and> ctx \<noteq> Null \<and> s' = pushed s p xs"
proof -
  from assms have ctx: "ctx \<noteq> Undefined" "ctx \<noteq> Null"
    by (auto simp: webpack_def split: if_splits)
  from assms ctx obtain plugins where g: "get_prop s config ''plugins'' = Inr plugins"
    and p: "push (s @ [vue_flags_plugin]) plugins (Ref (length s)) = Inr s'" and r: "r = config"
    by (auto simp: webpack_def alloc_def JSON_stringify_def split: sum.splits)
  from push_Inr [OF p] obtain p xs where pl: "plugins = Ref p"
    and lk: "lookup (s @ [vue_flags_plugin]) p = Some (Arr xs)"
    and s': "s' = pushed s p xs" unfolding pushed_def by blast
  from lk have lk': "lookup s p = Some (Arr xs)"
    by (simp add: lookup_append split: if_splits)
  from g pl lk' have "plugin_list s config = Some xs"
    by (simp add: plugin_list_def)
  with g pl s' r ctx show ?thesis by blast
qed

lemma webpack_success:
  assumes "plugin_list s config = Some xs" and "ctx \<noteq> Undefined" and "ctx \<noteq> Null"
  shows "\<exists>p. get_prop s config ''plugins'' = Inr (Ref p) \<and> lookup s p = Some (Arr xs)
           \<and> webpack config ctx s = Inr (config, pushed s p xs)"
proof -
  from plugin_list_Some [OF assms(1)] obtain c fs p where
    c: "config = Ref c" "lookup s c = Some (Obj fs)" "map_of fs ''plugins'' = Some (Ref p)"
    and p: "lookup s p = Some (Arr xs)" by blast
  from p have "p < length s" by (rule lookup_Some_less)
  with c p assms(2,3) have "webpack config ctx s = Inr (config, pushed s p xs)"
    by (simp add: webpack_def alloc_def JSON_stringify_def lookup_append pushed_def)
  with c p show ?thesis by simp
qed

lemma pushed_facts:
  assumes g: "get_prop s config ''plugins'' = Inr (Ref p)" and l: "lookup s p = Some (Arr xs)"
  shows "length (pushed s p xs) = Suc (length s)"
    and "lookup (pushed s p xs) (length s) = Some vue_flags_plugin"
    and "lookup (pushed s p xs) p = Some (Arr (xs @ [Ref (length s)]))"
    and "a \<noteq> p \<Longrightarrow> a < length s \<Longrightarrow> lookup (pushed s p xs) a = lookup s a"
    and "get_prop (pushed s p xs) config k = get_prop s config k"
    and "plugin_list (pushed s p xs) config = Some (xs @ [Ref (length s)])"
    and "last_plugin_constants (pushed s p xs) config = Some vue_flags"
proof -
  from l have p: "p < length s" by (rule lookup_Some_less)
  from get_prop_Ref [OF g] obtain c fs where
    c: "config = Ref c" "lookup s c = Some (Obj fs)" "map_of fs ''plugins'' = Some (Ref p)"
    by blast
  from c(2) l have cp: "c \<noteq> p" by auto
  from c(2) have cl: "c < length s" by (rule lookup_Some_less)
  show 1: "length (pushed s p xs) = Suc (length s)" by (simp add: pushed_def)
  show 2: "lookup (pushed s p xs) (length s) = Some vue_flags_plugin"
    using p by (simp add: pushed_def lookup_update lookup_append)
  show 3: "lookup (pushed s p xs) p = Some (Arr (xs @ [Ref (length s)]))"
    using p by (simp add: pushed_def lookup_update)
  show 4: "a \<noteq> p \<Longrightarrow> a < length s \<Longrightarrow> lookup (pushed s p xs) a = lookup s a" for a
    by (simp add: pushed_def lookup_update lookup_append)
  from 4 [OF cp cl] have 5: "lookup (pushed s p xs) c = Some (Obj fs)" using c(2) by simp
  show "get_prop (pushed s p xs) config k = get_prop s config k"
    using 5 c by simp
  show 6: "plugin_list (pushed s p xs) config = Some (xs @ [Ref (length s)])"
    unfolding c(1) using 5 c(3) 3 by (rule plugin_list_intro)
  show "last_plugin_constants (pushed s p xs) config = Some vue_flags"
    using 6 2 by (simp add: last_plugin_constants_def boolean_literal_def)
qed

text \<open>Whatever the hook throws is a \<^verbatim>\<open>TypeError\<close>.\<close>

lemma get_prop_Inl: "get_prop s v k = Inl e \<Longrightarrow> e = TypeError"
  by (cases v) (auto split: option.splits obj.splits)

lemma push_Inl: "push s v x = Inl e \<Longrightarrow> e = TypeError"
  by (cases v) (auto split: option.splits obj.splits)

lemma webpack_Inl:
  assumes "webpack config ctx s = Inl e"
  shows "e = TypeError"
proof (cases "ctx = Undefined \<or> ctx = Null")
  case True
  with assms show ?thesis by (auto simp: webpack_def)
next
  case False
  show ?thesis
  proof (cases "get_prop s config ''plugins''")
    case (Inl e')
    with assms False have "e = e'" by (simp add: webpack_def)
    with get_prop_Inl [OF Inl] show ?thesis by simp
  next
    case (Inr plugins)
    with assms False obtain s1 x where "push s1 plugins x = Inl e"
      by (auto simp: webpack_def alloc_def split: sum.splits)
    then show ?thesis by (rule push_Inl)
  qed
qed

text \<open>The hook throws exactly when it is given no context or no plugins array.\<close>

lemma webpack_throws_iff:
  "webpack config ctx s = Inl TypeError
     \<longleftrightarrow> ctx = Undefined \<or> ctx = Null \<or> plugin_list s config = None"
proof (cases "ctx = Undefined \<or> ctx = Null")
  case True
  then show ?thesis by (auto simp: webpack_def)
next
  case ctx: False
  show ?thesis
  proof (cases "plugin_list s config")
    case None
    have "webpack config ctx s \<noteq> Inr (r, s')" for r s'
      using webpack_Inr [of config ctx s r s'] None by auto
    then have "webpack config ctx s = Inl TypeError"
      by (cases "webpack config ctx s") (auto dest: webpack_Inl)
    with None show ?thesis by simp
  next
    case (Some xs)
    from webpack_success [OF Some] ctx obtain p where
      "webpack config ctx s = Inr (config, pushed s p xs)" by blast
    with Some ctx show ?thesis by simp
  qed
qed

section \<open>Facts about the module in the store\<close>






lemma footprint_Ref_Arr:
  "lookup s a = Some (Arr xs) \<Longrightarrow>
     set (footprint (Suc n) s (Ref a)) = insert a (\<Union>x \<in> set xs. set (footprint n s x))"
  by auto





lemma definitions_vue_flags:
  "definitions vue_flags_plugin =
     [(''__VUE_OPTIONS_API__'', ''true''), (''__VUE_PROD_DEVTOOLS__'', ''false''),
      (''__VUE_PROD_HYDRATION_MISMATCH_DETAILS__'', ''false'')]"
  by simp

lemma inline_vue_flags:
  "inline vue_flags_plugin tokens =
     map (\<lambda>t. if t = ''__VUE_OPTIONS_API__'' then ''true''
              else if t = ''__VUE_PROD_DEVTOOLS__'' \<or> t = ''__VUE_PROD_HYDRATION_MISMATCH_DETAILS__''
              then ''false'' else t) tokens"
  unfolding inline_def definitions_vue_flags by (rule map_cong) auto





section \<open>Facts about patterns and rules\<close>

lemma nullable_lang: "nullable r \<longleftrightarrow> [] \<in> lang r"
  by (induction r) (auto intro: star_empty)

lemma star_cons_split:
  assumes "x \<in> star A" and "x = c # w"
  shows "\<exists>u v. w = u @ v \<and> c # u \<in> A \<and> v \<in> star A"
  using assms
proof (induction arbitrary: w rule: star.induct)
  case star_empty
  then show ?case by simp
next
  case (star_step u v)
  show ?case
  proof (cases u)
    case Nil
    with star_step show ?thesis by simp
  next
    case (Cons d u')
    with star_step.prems have "d = c" and "w = u' @ v" by simp_all
    with Cons star_step.hyps show ?thesis by blast
  qed
qed

lemma star_cons: "c # w \<in> star A \<longleftrightarrow> (\<exists>u v. w = u @ v \<and> c # u \<in> A \<and> v \<in> star A)"
proof
  assume "c # w \<in> star A"
  then show "\<exists>u v. w = u @ v \<and> c # u \<in> A \<and> v \<in> star A"
    by (rule star_cons_split) simp
next
  assume "\<exists>u v. w = u @ v \<and> c # u \<in> A \<and> v \<in> star A"
  then obtain u v where "w = u @ v" "c # u \<in> A" "v \<in> star A" by blast
  then show "c # w \<in> star A"
    using star_step [of "c # u" A v] by simp
qed

lemma deriv_lang: "w \<in> lang (deriv c r) \<longleftrightarrow> c # w \<in> lang r"
proof (induction r arbitrary: w)
  case (Cat r s)
  show ?case
  proof (cases "nullable r")
    case True
    then have "[] \<in> lang r" by (simp add: nullable_lang)
    with Cat show ?thesis
      by (auto simp: True Cons_eq_append_conv)
  next
    case False
    then have "[] \<notin> lang r" by (simp add: nullable_lang)
    with Cat show ?thesis
      by (auto simp: False Cons_eq_append_conv)
  qed
next
  case (Star r)
  then show ?case by (auto simp: star_cons)
qed auto

lemma rx_match_lang: "rx_match r w \<longleftrightarrow> w \<in> lang r"
  by (induction w arbitrary: r) (simp_all add: nullable_lang deriv_lang)

lemma star_Dot:
  "w \<in> star {[c] | c. \<not> line_terminator c} \<longleftrightarrow> list_all (\<lambda>d. \<not> line_terminator d) w"
  (is "w \<in> star ?D \<longleftrightarrow> _")
proof
  assume "w \<in> star ?D"
  then show "list_all (\<lambda>d. \<not> line_terminator d) w"
    by (induction rule: star.induct) auto
next
  assume "list_all (\<lambda>d. \<not> line_terminator d) w"
  then show "w \<in> star ?D"
  proof (induction w)
    case Nil
    show ?case by (rule star_empty)
  next
    case (Cons c w)
    then have "[c] \<in> ?D" and "w \<in> star ?D" by simp_all
    then have "[c] @ w \<in> star ?D" by (rule star_step)
    then show ?case by simp
  qed
qed

lemma parse_source: "parse_pattern [] None ''/(.*)'' = Some (Cat (Lit CHR ''/'') (Cat (Cat (Star Dot) One) One))"
  by code_simp

lemma all_paths_lang:
  "w \<in> lang (Cat (Lit CHR ''/'') (Cat (Cat (Star Dot) One) One)) \<longleftrightarrow> request_path w"
  by (cases w) (auto simp: star_Dot)

lemma all_paths_match:
  "rx_match (Cat (Lit CHR ''/'') (Cat (Cat (Star Dot) One) One)) w = request_path w"
  unfolding rx_match_lang by (rule all_paths_lang)

lemma load_rules_headers:
  "load_rules (fst (headers s)) =
     Some [\<lparr>source = ''/(.*)'', pattern = Cat (Lit CHR ''/'') (Cat (Cat (Star Dot) One) One),
            rule_headers = [(''Cross-Origin-Embedder-Policy'', ''unsafe-none''),
                            (''Cross-Origin-Opener-Policy'', ''same-origin-allow-popups'')]\<rparr>]"
  by (simp add: headers_def load_rules_def load_rule_def load_header_def parse_source
        del: parse_pattern.simps)

lemma served_headers_char:
  "served_headers s P = Some (if request_path P then [(''Cross-Origin-Embedder-Policy'', ''unsafe-none''),
                            (''Cross-Origin-Opener-Policy'', ''same-origin-allow-popups'')] else [])"
  by (simp add: served_headers_def load_rules_headers response_headers_def all_paths_match)

lemma rule_matches_char:
  "rule_matches s P = Some [(''/(.*)'', request_path P)]"
  by (simp add: rule_matches_def load_rules_headers all_paths_match)

section \<open>Static settings\<close>

text \<open>
  C5. Image optimisation is disabled: \<^verbatim>\<open>images.unoptimized\<close> is \<^verbatim>\<open>true\<close>; and the
  image-source allowlist \<^verbatim>\<open>images.domains\<close> holds exactly one hostname,
  \<^verbatim>\<open>n8n2.ibhost.online\<close>.
\<close>

theorem images_unoptimized_one_domain:
  "get_path nextConfig [''images'', ''unoptimized''] = Some (LBool True)
   \<and> get_path nextConfig [''images'', ''domains''] = Some (LArray [LString ''n8n2.ibhost.online''])"
  by (simp add: nextConfig_def)

text \<open>
  The lint setting of the configuration: \<^verbatim>\<open>eslint.ignoreDuringBuilds\<close> is \<^verbatim>\<open>true\<close>. What
  the build step does with lint findings under that setting is the framework's and is not
  part of the module.
\<close>

lemma eslint_ignoreDuringBuilds_is_true:
  "get_path nextConfig [''eslint'', ''ignoreDuringBuilds''] = Some (LBool True)"
  by (simp add: nextConfig_def)

text \<open>
  C10. The exported object has exactly the top-level keys \<^verbatim>\<open>eslint\<close>, \<^verbatim>\<open>images\<close>,
  \<^verbatim>\<open>headers\<close>, \<^verbatim>\<open>experimental\<close> and \<^verbatim>\<open>webpack\<close>; it has no \<^verbatim>\<open>output\<close> key; and
  \<^verbatim>\<open>experimental\<close> holds the one setting \<^verbatim>\<open>serverComponentsExternalPackages\<close>, which is
  exactly \<^verbatim>\<open>["@n8n/chat"]\<close>.
\<close>

theorem nextConfig_top_level_fields:
  "keys module_exports = [''eslint'', ''images'', ''headers'', ''experimental'', ''webpack'']
   \<and> get module_exports ''output'' = None
   \<and> get module_exports ''experimental''
       = Some (LObject [(''serverComponentsExternalPackages'', LArray [LString ''@n8n/chat''])])"
  by (simp add: module_exports_def nextConfig_def)

section \<open>Response headers\<close>

text \<open>
  C1. For every request path \<open>P\<close>, the headers this layer puts on the response for \<open>P\<close> are
  exactly two: \<^verbatim>\<open>Cross-Origin-Embedder-Policy: unsafe-none\<close> and
  \<^verbatim>\<open>Cross-Origin-Opener-Policy: same-origin-allow-popups\<close>, and no other.
\<close>

theorem response_carries_both_headers:
  assumes "request_path P"
  shows "served_headers s P =
           Some [(''Cross-Origin-Embedder-Policy'', ''unsafe-none''),
                 (''Cross-Origin-Opener-Policy'', ''same-origin-allow-popups'')]"
  using assms by (simp add: served_headers_char)

theorem response_carries_both_headers_witness:
  "request_path ''/contact''
   \<and> served_headers [] ''/contact'' =
         Some [(''Cross-Origin-Embedder-Policy'', ''unsafe-none''),
               (''Cross-Origin-Opener-Policy'', ''same-origin-allow-popups'')]"
proof -
  have h: "request_path ''/contact''" by code_simp
  from h response_carries_both_headers [OF h, of "[]"] show ?thesis by simp
qed

text \<open>
  C3. \<^verbatim>\<open>headers()\<close> returns a single rule, its pattern is \<^verbatim>\<open>/(.*)\<close>, and that pattern
  matches every request path: no path is left out.
\<close>

theorem source_pattern_matches_every_path:
  assumes "request_path P"
  shows "rule_matches s P = Some [(''/(.*)'', True)]"
  using assms by (simp add: rule_matches_char)

theorem source_pattern_matches_every_path_witness:
  "request_path ''/'' \<and> rule_matches [] ''/'' = Some [(''/(.*)'', True)]"
proof -
  have h: "request_path ''/''" by code_simp
  from h source_pattern_matches_every_path [OF h, of "[]"] show ?thesis by simp
qed




section \<open>Images\<close>

text \<open>
  C6. With image optimisation disabled, as the configuration has it, the allowlist plays
  no part: whatever the allowlist is set to (the empty one included) and whatever the
  hostname of the image, inside or outside the allowlist, the request is not refused and
  the image is served unmodified.
\<close>

theorem image_allowlist_no_op:
  "image_request nextConfig host = Served_unmodified
   \<and> image_request (with_domains nextConfig ds) host = Served_unmodified"
  by (simp add: image_request_def with_domains_def nextConfig_def)

text \<open>
  The gate of the model does refuse when it applies: with optimisation switched on and an
  empty allowlist, every hostname is refused.
\<close>

lemma image_gate_refuses_when_optimizing:
  "image_request
     (put nextConfig ''images'' (LObject [(''unoptimized'', LBool False), (''domains'', LArray [])]))
     host = Refused"
  by (simp add: image_request_def nextConfig_def)

section \<open>The webpack hook\<close>

text \<open>
  C2. The bundling step calls the hook with its configuration, an object with a
  \<^verbatim>\<open>plugins\<close> array, and a context object. The hook then always returns that
  configuration, whose last plugin is the \<^verbatim>\<open>DefinePlugin\<close> it has just created; that
  plugin defines exactly three constants, under the names \<^verbatim>\<open>__VUE_OPTIONS_API__\<close>,
  \<^verbatim>\<open>__VUE_PROD_DEVTOOLS__\<close> and \<^verbatim>\<open>__VUE_PROD_HYDRATION_MISMATCH_DETAILS__\<close>, with the
  code fragments \<^verbatim>\<open>true\<close>, \<^verbatim>\<open>false\<close> and \<^verbatim>\<open>false\<close>, which are boolean literals; and in
  whatever module is bundled, every occurrence of the three names is replaced by its
  literal and nothing else is changed.
\<close>

theorem webpack_delivers_vue_flags:
  assumes "plugin_list s config = Some xs" and "ctx \<noteq> Undefined" and "ctx \<noteq> Null"
  shows "\<exists>s' plugin.
        webpack config ctx s = Inr (config, s')
      \<and> plugin_list s' config = Some (xs @ [Ref (length s)])
      \<and> lookup s' (length s) = Some plugin
      \<and> definitions plugin =
          [(''__VUE_OPTIONS_API__'', ''true''), (''__VUE_PROD_DEVTOOLS__'', ''false''),
           (''__VUE_PROD_HYDRATION_MISMATCH_DETAILS__'', ''false'')]
      \<and> defined_constants plugin =
          [(''__VUE_OPTIONS_API__'', Some True), (''__VUE_PROD_DEVTOOLS__'', Some False),
           (''__VUE_PROD_HYDRATION_MISMATCH_DETAILS__'', Some False)]
      \<and> (\<forall>tokens. inline plugin tokens =
            map (\<lambda>t. if t = ''__VUE_OPTIONS_API__'' then ''true''
                     else if t = ''__VUE_PROD_DEVTOOLS__''
                           \<or> t = ''__VUE_PROD_HYDRATION_MISMATCH_DETAILS__''
                     then ''false'' else t) tokens)"
proof -
  from webpack_success [OF assms] obtain p where
    g: "get_prop s config ''plugins'' = Inr (Ref p)" and l: "lookup s p = Some (Arr xs)"
    and w: "webpack config ctx s = Inr (config, pushed s p xs)" by blast
  note f = pushed_facts [OF g l]
  from w f(6) f(2) definitions_vue_flags defined_constants_vue_flags inline_vue_flags
  show ?thesis by blast
qed

theorem webpack_delivers_vue_flags_witness:
  "plugin_list sample_store (Ref 0) = Some [Ref 4]
   \<and> (\<exists>s' plugin.
        webpack (Ref 0) (Ref 2) sample_store = Inr (Ref 0, s')
      \<and> plugin_list s' (Ref 0) = Some ([Ref 4] @ [Ref (length sample_store)])
      \<and> lookup s' (length sample_store) = Some plugin
      \<and> inline plugin
           [''if'', ''('', ''__VUE_OPTIONS_API__'', '')'', ''x'', ''='', ''__VUE_PROD_DEVTOOLS__'']
         = [''if'', ''('', ''true'', '')'', ''x'', ''='', ''false''])"
proof -
  have h: "plugin_list sample_store (Ref 0) = Some [Ref 4]"
    by (simp add: sample_store_def plugin_list_def lookup_def)
  have c: "Ref 2 \<noteq> Undefined" "Ref 2 \<noteq> Null" by simp_all
  from webpack_delivers_vue_flags [OF h c] obtain s' plugin where
    "webpack (Ref 0) (Ref 2) sample_store = Inr (Ref 0, s')"
    "plugin_list s' (Ref 0) = Some ([Ref 4] @ [Ref (length sample_store)])"
    "lookup s' (length sample_store) = Some plugin"
    "\<forall>tokens. inline plugin tokens =
            map (\<lambda>t. if t = ''__VUE_OPTIONS_API__'' then ''true''
                     else if t = ''__VUE_PROD_DEVTOOLS__''
                           \<or> t = ''__VUE_PROD_HYDRATION_MISMATCH_DETAILS__''
                     then ''false'' else t) tokens"
    by blast
  moreover from this(4) have "inline plugin
           [''if'', ''('', ''__VUE_OPTIONS_API__'', '')'', ''x'', ''='', ''__VUE_PROD_DEVTOOLS__'']
         = [''if'', ''('', ''true'', '')'', ''x'', ''='', ''false'']" by simp
  ultimately show ?thesis using h by blast
qed

text \<open>
  C9, as the spec states it: for every webpack configuration object the hook returns that
  object with one plugin appended. It fails: a configuration object that has no
  \<^verbatim>\<open>plugins\<close> property (here \<^verbatim>\<open>{ mode: "production" }\<close>, with the context
  \<^verbatim>\<open>{ isServer: true }\<close>) makes \<^verbatim>\<open>config.plugins.push\<close> throw a \<^verbatim>\<open>TypeError\<close>, and
  nothing is returned.
\<close>

theorem webpack_without_plugins_throws:
  "webpack (Ref 0) (Ref 1)
     [Obj [(''mode'', Str ''production'')], Obj [(''isServer'', Boolean True)]]
   = Inl TypeError"
  by (simp add: webpack_def alloc_def lookup_def)

text \<open>
  C9, amended: for every webpack configuration object whose \<^verbatim>\<open>plugins\<close> property is an
  array, and every context object, the hook returns that same object (the same
  reference); the array has exactly one new element, appended last, a reference to a new
  \<^verbatim>\<open>DefinePlugin\<close> that defines the three Vue feature flags; one object is added to the
  store and no object other than the array is changed, so every plugin that was there and
  every property of the configuration reads as before; and the outcome is the same for
  any two context objects, whatever their \<^verbatim>\<open>isServer\<close>.
\<close>

theorem webpack_appends_one_plugin:
  assumes "plugin_list s config = Some xs"
    and "ctx \<noteq> Undefined" and "ctx \<noteq> Null"
    and "ctx' \<noteq> Undefined" and "ctx' \<noteq> Null"
  shows "\<exists>p s'. get_prop s config ''plugins'' = Inr (Ref p)
       \<and> webpack config ctx s = Inr (config, s')
       \<and> webpack config ctx' s = Inr (config, s')
       \<and> plugin_list s' config = Some (xs @ [Ref (length s)])
       \<and> lookup s' (length s) = Some (DefinePlugin (LObject
             [(''__VUE_OPTIONS_API__'', LString ''true''),
              (''__VUE_PROD_DEVTOOLS__'', LString ''false''),
              (''__VUE_PROD_HYDRATION_MISMATCH_DETAILS__'', LString ''false'')]))
       \<and> length s' = Suc (length s)
       \<and> (\<forall>a. a < length s \<and> a \<noteq> p \<longrightarrow> lookup s' a = lookup s a)
       \<and> (\<forall>k. get_prop s' config k = get_prop s config k)"
proof -
  from webpack_success [OF assms(1,2,3)] obtain p where
    g: "get_prop s config ''plugins'' = Inr (Ref p)" and l: "lookup s p = Some (Arr xs)"
    and w: "webpack config ctx s = Inr (config, pushed s p xs)" by blast
  from webpack_success [OF assms(1,4,5)] g
  have w': "webpack config ctx' s = Inr (config, pushed s p xs)" by auto
  note f = pushed_facts [OF g l]
  from f(4) have frame: "\<forall>a. a < length s \<and> a \<noteq> p \<longrightarrow> lookup (pushed s p xs) a = lookup s a"
    by blast
  from f(5) have props: "\<forall>k. get_prop (pushed s p xs) config k = get_prop s config k"
    by blast
  from g w w' f(6) f(2) f(1) frame props show ?thesis by blast
qed

theorem webpack_appends_one_plugin_witness:
  "plugin_list sample_store (Ref 0) = Some [Ref 4]
   \<and> (\<exists>p s'. get_prop sample_store (Ref 0) ''plugins'' = Inr (Ref p)
       \<and> webpack (Ref 0) (Ref 2) sample_store = Inr (Ref 0, s')
       \<and> webpack (Ref 0) (Ref 3) sample_store = Inr (Ref 0, s')
       \<and> plugin_list s' (Ref 0) = Some ([Ref 4] @ [Ref (length sample_store)])
       \<and> lookup s' (length sample_store) = Some vue_flags_plugin
       \<and> length s' = Suc (length sample_store)
       \<and> (\<forall>a. a < length sample_store \<and> a \<noteq> p \<longrightarrow> lookup s' a = lookup sample_store a)
       \<and> (\<forall>k. get_prop s' (Ref 0) k = get_prop sample_store (Ref 0) k))"
proof -
  have h: "plugin_list sample_store (Ref 0) = Some [Ref 4]"
    by (simp add: sample_store_def plugin_list_def lookup_def)
  have c2: "Ref 2 \<noteq> Undefined" "Ref 2 \<noteq> Null" and c3: "Ref 3 \<noteq> Undefined" "Ref 3 \<noteq> Null"
    by simp_all
  from h webpack_appends_one_plugin [OF h c2 c3] show ?thesis by blast
qed

section \<open>Determinism and immutability\<close>




end
